theory Spec2Isabelle
  imports Main
begin

section \<open>The urls collection\<close>

text \<open>
  The controller in \<^verbatim>\<open>controllers/urlController.js\<close> works on Mongoose documents of the
  \<^verbatim>\<open>Url\<close> model. A document is a record of the fields the controller reads and writes;
  dates are milliseconds since the epoch, a \<^verbatim>\<open>null\<close> field is \<open>None\<close>.
  The collection is the list of its documents in insertion order, and a document's
  \<^verbatim>\<open>_id\<close> is its position in that list: no modelled operation removes a document
  (deletion is the soft \<^verbatim>\<open>isActive: false\<close>), so positions are stable and unique,
  as ObjectIds are. The controller also names \<^verbatim>\<open>customCode\<close> and
  \<^verbatim>\<open>clickHistory\<close>, two paths that the schema in \<^verbatim>\<open>models/Url.js\<close> does not
  declare: Mongoose (strict by default) drops them from a new document and from an
  update, so no stored document has them and the record has no such field. Failures of
  the database other than the ones named below (a lost connection during a lookup) are
  not modelled.
\<close>

record click =
  timestamp :: int
  ip :: string
  userAgent :: "string option"
  referer :: "string option"
  country :: string
  city :: string

record url =
  originalUrl :: string
  shortCode :: string
  shortUrl :: string
  expiresAt :: "int option"
  isActive :: bool
  clicks :: int
  uniqueClicks :: int
  lastAccessedAt :: "int option"
  analytics_totalClicks :: int
  analytics_uniqueVisitors :: int

text \<open>What a handler can throw; \<^verbatim>\<open>next(error)\<close> hands it to the error middleware.\<close>

datatype error =
    TypeError
  | ProviderError
  | PersistenceError
  | ValidationError "string list"
  | DuplicateKeyError
  | AppError string nat

text \<open>
  What a handler does with \<^verbatim>\<open>res\<close> and \<^verbatim>\<open>next\<close>:
  \<^verbatim>\<open>res.status(n).json({message, error})\<close>, the 201 answer of \<^verbatim>\<open>shortenUrl\<close>
  (the document's \<^verbatim>\<open>_id\<close> and the document), \<^verbatim>\<open>res.redirect(n, location)\<close>,
  \<^verbatim>\<open>next(error)\<close>.
\<close>

datatype response =
    Json nat string string
  | Created nat url
  | Redirect nat string
  | Next error

text \<open>\<^verbatim>\<open>Model.findOne(filter)\<close>: the first document that matches, with its \<^verbatim>\<open>_id\<close>.\<close>

fun findOne :: "(url \<Rightarrow> bool) \<Rightarrow> url list \<Rightarrow> (nat \<times> url) option" where
  "findOne p [] = None"
| "findOne p (u # us) =
     (if p u then Some (0, u)
      else (case findOne p us of None \<Rightarrow> None | Some (i, v) \<Rightarrow> Some (Suc i, v)))"

text \<open>
  \<^verbatim>\<open>Model.findByIdAndUpdate(id, update)\<close>: the document with that \<^verbatim>\<open>_id\<close> is
  updated; with no such document nothing changes.
\<close>

definition findByIdAndUpdate :: "nat \<Rightarrow> (url \<Rightarrow> url) \<Rightarrow> url list \<Rightarrow> url list" where
  "findByIdAndUpdate i f store = (if i < length store then store[i := f (store ! i)] else store)"

section \<open>Redirecting: \<^verbatim>\<open>UrlController.redirectUrl\<close>\<close>

text \<open>
  The request: \<^verbatim>\<open>req.params.shortCode\<close>, \<^verbatim>\<open>req.ip || req.connection.remoteAddress\<close>,
  and the two headers.
\<close>

record request =
  req_shortCode :: string
  req_ip :: string
  req_userAgent :: "string option"
  req_referer :: "string option"

text \<open>
  \<^verbatim>\<open>geoip.lookup(ip)\<close> of geoip-lite answers a record with a country and a city, or
  \<^verbatim>\<open>null\<close>; a provider may also throw. The module variable \<^verbatim>\<open>geoip\<close> is
  \<^verbatim>\<open>null\<close> until \<^verbatim>\<open>initGeoip\<close> has imported the module, and stays \<^verbatim>\<open>null\<close>
  when the import fails (\<open>None\<close> here).
\<close>

record geo =
  geo_country :: string
  geo_city :: string

type_synonym geoip_module = "string \<Rightarrow> error + geo option"

text \<open>\<^verbatim>\<open>geo?.country || 'Unknown'\<close>: an absent record and an empty string both give Unknown.\<close>

definition or_unknown :: "geo option \<Rightarrow> (geo \<Rightarrow> string) \<Rightarrow> string" where
  "or_unknown g field =
     (case g of None \<Rightarrow> ''Unknown''
      | Some r \<Rightarrow> if field r = [] then ''Unknown'' else field r)"

text \<open>
  The filter of the lookup: the code, active, and not expired at the time of the query
  (\<^verbatim>\<open>expiresAt: null\<close> or \<^verbatim>\<open>expiresAt: { $gt: new Date() }\<close>). The code of the
  request has passed \<^verbatim>\<open>validateShortCode\<close>, whose pattern admits no white space.
\<close>

definition redirect_filter :: "string \<Rightarrow> int \<Rightarrow> url \<Rightarrow> bool" where
  "redirect_filter code now u =
     (shortCode u = code \<and> isActive u \<and>
      (case expiresAt u of None \<Rightarrow> True | Some t \<Rightarrow> now < t))"

definition clickData :: "int \<Rightarrow> request \<Rightarrow> geo option \<Rightarrow> click" where
  "clickData now req g =
     \<lparr> timestamp = now, ip = req_ip req, userAgent = req_userAgent req,
       referer = req_referer req, country = or_unknown g geo_country,
       city = or_unknown g geo_city \<rparr>"

text \<open>
  The update \<^verbatim>\<open>{ $inc: { clicks: 1 }, $push: { clickHistory: clickData } }\<close>: the
  schema declares no \<^verbatim>\<open>clickHistory\<close>, so the \<^verbatim>\<open>$push\<close> is stripped and only the
  counter is written.
\<close>

definition record_click :: "click \<Rightarrow> url \<Rightarrow> url" where
  "record_click c d = d\<lparr> clicks := clicks d + 1 \<rparr>"

text \<open>
  The handler, statement by statement. \<open>geoip\<close> is the module variable, \<open>db_error\<close> what
  the persistence layer throws at the \<^verbatim>\<open>findByIdAndUpdate\<close> (\<open>None\<close>: the write goes
  through), \<open>now\<close> the clock. Every throw inside the \<^verbatim>\<open>try\<close> ends in
  \<^verbatim>\<open>next(error)\<close>, and nothing after the throwing statement runs.
\<close>

definition redirectUrl ::
  "geoip_module option \<Rightarrow> error option \<Rightarrow> int \<Rightarrow> url list \<Rightarrow> request \<Rightarrow> response \<times> url list" where
  "redirectUrl geoip db_error now store req =
     (case findOne (redirect_filter (req_shortCode req) now) store of
        None \<Rightarrow> (Json 404 ''Short URL not found or expired'' ''URL_NOT_FOUND'', store)
      | Some (i, u) \<Rightarrow>
          (case geoip of
             None \<Rightarrow> (Next TypeError, store)
           | Some lookup \<Rightarrow>
               (case lookup (req_ip req) of
                  Inl e \<Rightarrow> (Next e, store)
                | Inr g \<Rightarrow>
                    (case db_error of
                       Some e \<Rightarrow> (Next e, store)
                     | None \<Rightarrow>
                         (Redirect 301 (originalUrl u),
                          findByIdAndUpdate i (record_click (clickData now req g)) store)))))"

section \<open>The schema of the \<^verbatim>\<open>Url\<close> model: validation and the save hooks\<close>

text \<open>
  Code of other packages and of files that are not among the sources is a parameter:
  \<^verbatim>\<open>utils/validateUrl.js\<close>, \<^verbatim>\<open>utils/generateShortCode.js\<close> and \<^verbatim>\<open>nanoid\<close>
  (the result of the k-th call, each being a random source), \<^verbatim>\<open>validator.isURL\<close>
  with the schema's options, and the environment variable \<^verbatim>\<open>BASE_URL\<close>.
\<close>

record world =
  validateUrl :: "string \<Rightarrow> bool"
  generateShortCode :: "nat \<Rightarrow> string"
  nanoid :: "nat \<Rightarrow> string"
  isURL :: "string \<Rightarrow> bool"
  BASE_URL :: "string option"

text \<open>\<^verbatim>\<open>a || b\<close> on strings: the empty string and \<^verbatim>\<open>undefined\<close> are falsy.\<close>

definition truthy :: "string option \<Rightarrow> string option" where
  "truthy x = (case x of None \<Rightarrow> None | Some s \<Rightarrow> if s = [] then None else Some s)"

definition or_else :: "string option \<Rightarrow> string \<Rightarrow> string" where
  "or_else x d = (case truthy x of None \<Rightarrow> d | Some s \<Rightarrow> s)"

text \<open>The schema option \<^verbatim>\<open>trim: true\<close>: the setter strips white space at both ends.\<close>

definition is_space :: "char \<Rightarrow> bool" where
  "is_space c = (c \<in> set [CHR '' '', CHR 0x09, CHR 0x0A, CHR 0x0B, CHR 0x0C, CHR 0x0D])"

definition trim :: "string \<Rightarrow> string" where
  "trim s = rev (dropWhile is_space (rev (dropWhile is_space s)))"

text \<open>The pattern \<^verbatim>\<open>/^[a-zA-Z0-9_-]+$/\<close> of \<^verbatim>\<open>shortCode\<close>.\<close>

definition code_char :: "char \<Rightarrow> bool" where
  "code_char c =
     (c \<in> set ''abcdefghijklmnopqrstuvwxyzABCDEFGHIJKLMNOPQRSTUVWXYZ0123456789_-'')"

definition match_shortCode :: "string \<Rightarrow> bool" where
  "match_shortCode s = (s \<noteq> [] \<and> list_all code_char s)"

text \<open>
  A lookup by \<^verbatim>\<open>{ shortCode }\<close>: Mongoose casts the value of the filter through the
  schema, which trims it, before it is compared with the stored codes.
\<close>

definition shortCode_filter :: "string \<Rightarrow> url \<Rightarrow> bool" where
  "shortCode_filter code u = (shortCode u = trim code)"

text \<open>
  The validators, path by path in the schema's order; a path reports its first failing
  validator. The validator of \<^verbatim>\<open>expiresAt\<close> is
  \<^verbatim>\<open>!date || date > new Date()\<close>.
\<close>

definition check_originalUrl :: "world \<Rightarrow> url \<Rightarrow> string list" where
  "check_originalUrl w d =
     (if originalUrl d = [] then [''Original URL is required'']
      else if \<not> isURL w (originalUrl d)
        then [''Please provide a valid URL with http:// or https://'']
      else [])"

definition check_shortCode :: "url \<Rightarrow> string list" where
  "check_shortCode d =
     (if shortCode d = [] then [''Path shortCode is required.'']
      else if length (shortCode d) < 3 then [''Short code must be at least 3 characters'']
      else if 20 < length (shortCode d) then [''Short code cannot exceed 20 characters'']
      else if \<not> match_shortCode (shortCode d)
        then [''Short code can only contain letters, numbers, hyphens, and underscores'']
      else [])"

definition check_shortUrl :: "url \<Rightarrow> string list" where
  "check_shortUrl d = (if shortUrl d = [] then [''Path shortUrl is required.''] else [])"

definition check_clicks :: "url \<Rightarrow> string list" where
  "check_clicks d =
     (if clicks d < 0 then [''Clicks cannot be negative''] else []) @
     (if uniqueClicks d < 0 then [''Unique clicks cannot be negative''] else [])"

definition check_expiresAt :: "int \<Rightarrow> url \<Rightarrow> string list" where
  "check_expiresAt now d =
     (case expiresAt d of
        None \<Rightarrow> []
      | Some t \<Rightarrow> if now < t then [] else [''Expiration date must be in the future''])"

definition validate :: "world \<Rightarrow> int \<Rightarrow> url \<Rightarrow> string list" where
  "validate w now d =
     check_originalUrl w d @ check_shortCode d @ check_shortUrl d @ check_clicks d @
     check_expiresAt now d"

text \<open>
  The first \<^verbatim>\<open>pre('save')\<close> hook: a document without a short code gets a fresh
  \<^verbatim>\<open>nanoid(8)\<close>, drawn again until no document has it; then
  \<^verbatim>\<open>shortUrl\<close> is rebuilt. The loop has no exit but success, so it is a partial
  function: \<open>None\<close> is the run that never ends.
\<close>

partial_function (option) presave_generate :: "(nat \<Rightarrow> string) \<Rightarrow> url list \<Rightarrow> nat \<Rightarrow> string option" where
  [code]: "presave_generate nano store k =
     (if findOne (shortCode_filter (nano k)) store = None then Some (nano k)
      else presave_generate nano store (Suc k))"

definition with_shortUrl :: "world \<Rightarrow> url \<Rightarrow> url" where
  "with_shortUrl w d =
     d\<lparr> shortUrl := or_else (BASE_URL w) ''http://localhost:3000'' @ ''/'' @ shortCode d \<rparr>"

definition presave :: "world \<Rightarrow> url list \<Rightarrow> url \<Rightarrow> url option" where
  "presave w store d =
     (if shortCode d = []
      then (case presave_generate (nanoid w) store 0 of
              None \<Rightarrow> None
            | Some c \<Rightarrow> Some (with_shortUrl w (d\<lparr> shortCode := trim c \<rparr>)))
      else Some (with_shortUrl w d))"

text \<open>
  \<^verbatim>\<open>doc.save()\<close>. Mongoose validates first (validation is the first pre-save hook),
  then runs the schema's hooks, then writes. For a new document the write is an insert,
  which the unique index on \<^verbatim>\<open>shortCode\<close> refuses when the code is taken; the new
  document's \<^verbatim>\<open>_id\<close> is the next position.
\<close>

definition save_new :: "world \<Rightarrow> int \<Rightarrow> url list \<Rightarrow> url \<Rightarrow> (error + nat \<times> url \<times> url list) option" where
  "save_new w now store d =
     (case validate w now d of
        [] \<Rightarrow>
          (case presave w store d of
             None \<Rightarrow> None
           | Some d' \<Rightarrow>
               if findOne (\<lambda>u. shortCode u = shortCode d') store \<noteq> None
               then Some (Inl DuplicateKeyError)
               else Some (Inr (length store, d', store @ [d'])))
      | m # ms \<Rightarrow> Some (Inl (ValidationError (m # ms))))"

text \<open>For a document loaded from the collection the write replaces it in place.\<close>

definition save :: "world \<Rightarrow> int \<Rightarrow> url list \<Rightarrow> nat \<Rightarrow> url \<Rightarrow> (error + url \<times> url list) option" where
  "save w now store i d =
     (case validate w now d of
        [] \<Rightarrow>
          (case presave w store d of
             None \<Rightarrow> None
           | Some d' \<Rightarrow> Some (Inr (d', findByIdAndUpdate i (\<lambda>_. d') store)))
      | m # ms \<Rightarrow> Some (Inl (ValidationError (m # ms))))"

text \<open>The instance methods \<^verbatim>\<open>incrementClicks\<close> and \<^verbatim>\<open>incrementUniqueClicks\<close>.\<close>

definition incrementClicks :: "world \<Rightarrow> int \<Rightarrow> url list \<Rightarrow> nat \<Rightarrow> url \<Rightarrow> (error + url \<times> url list) option" where
  "incrementClicks w now store i d =
     save w now store i
       (d\<lparr> clicks := clicks d + 1,
           analytics_totalClicks := analytics_totalClicks d + 1,
           lastAccessedAt := Some now \<rparr>)"

definition incrementUniqueClicks :: "world \<Rightarrow> int \<Rightarrow> url list \<Rightarrow> nat \<Rightarrow> url \<Rightarrow> (error + url \<times> url list) option" where
  "incrementUniqueClicks w now store i d =
     save w now store i
       (d\<lparr> uniqueClicks := uniqueClicks d + 1,
           analytics_uniqueVisitors := analytics_uniqueVisitors d + 1 \<rparr>)"

text \<open>\<^verbatim>\<open>isExpired\<close>: \<^verbatim>\<open>this.expiresAt && this.expiresAt < new Date()\<close>.\<close>

definition isExpired :: "int \<Rightarrow> url \<Rightarrow> bool" where
  "isExpired now d = (case expiresAt d of None \<Rightarrow> False | Some t \<Rightarrow> t < now)"

section \<open>Creating: \<^verbatim>\<open>UrlController.shortenUrl\<close>\<close>

text \<open>
  The fields of the request body the handler uses for the short code, the destination
  and the expiry (\<^verbatim>\<open>title\<close>, \<^verbatim>\<open>description\<close> and the user are passed through and
  left out). \<^verbatim>\<open>expiresAt\<close> is the date already parsed.
\<close>

record body =
  b_originalUrl :: string
  b_customCode :: "string option"
  b_expiresAt :: "int option"

text \<open>
  \<^verbatim>\<open>new Url(urlData)\<close>: the setters trim the two strings, the \<^verbatim>\<open>customCode\<close> of
  \<^verbatim>\<open>urlData\<close> is dropped (the schema has no such path), the other fields take the
  schema's defaults.
\<close>

definition new_Url :: "string \<Rightarrow> string \<Rightarrow> string \<Rightarrow> string option \<Rightarrow> int option \<Rightarrow> url" where
  "new_Url original code short custom expires =
     \<lparr> originalUrl = trim original, shortCode = trim code, shortUrl = short,
       expiresAt = expires, isActive = True, clicks = 0,
       uniqueClicks = 0, lastAccessedAt = None,
       analytics_totalClicks = 0, analytics_uniqueVisitors = 0 \<rparr>"

text \<open>
  The collection is shared with the other requests in flight, and every \<^verbatim>\<open>await\<close> on
  it is a point where they may have changed it. \<open>interf k\<close> is what they did to the
  collection just before this handler's database call number \<open>k\<close>; \<open>quiet\<close> is the
  handler running alone.
\<close>

type_synonym interference = "nat \<Rightarrow> url list \<Rightarrow> url list"

definition quiet :: interference where
  "quiet k store = store"

text \<open>
  \<^verbatim>\<open>while (await Url.findOne({ shortCode })) { shortCode = generateShortCode(); }\<close>
  \<open>k\<close> numbers the database calls, \<open>g\<close> the calls of the generator. The loop answers
  the code it settled on, the collection it last saw and the number of the next
  database call; it has no exit but a free code.
\<close>

partial_function (option) ensure_unique ::
  "(nat \<Rightarrow> string) \<Rightarrow> interference \<Rightarrow> nat \<Rightarrow> nat \<Rightarrow> url list \<Rightarrow> string \<Rightarrow> (string \<times> url list \<times> nat) option" where
  [code]: "ensure_unique gen interf k g store code =
     (if findOne (shortCode_filter code) (interf k store) \<noteq> None
      then ensure_unique gen interf (Suc k) (Suc g) (interf k store) (gen g)
      else Some (code, interf k store, Suc k))"

text \<open>
  The handler. Its first lookup is
  \<^verbatim>\<open>{ $or: [{ shortCode: customCode }, { customCode }] }\<close>; no stored document has a
  \<^verbatim>\<open>customCode\<close>, so the second branch matches none and the lookup is the one by
  short code.
\<close>

definition shortenUrl ::
  "world \<Rightarrow> interference \<Rightarrow> int \<Rightarrow> url list \<Rightarrow> body \<Rightarrow> (response \<times> url list) option" where
  "shortenUrl w interf now store b =
     (if \<not> validateUrl w (b_originalUrl b)
      then Some (Json 400 ''Invalid URL format'' ''INVALID_URL'', store)
      else
        (case truthy (b_customCode b) of
           Some c \<Rightarrow>
             if findOne (shortCode_filter c) (interf 0 store) \<noteq> None
             then Some (Json 409 ''Custom code already taken'' ''CODE_TAKEN'', interf 0 store)
             else
               (case ensure_unique (generateShortCode w) interf 1 0 (interf 0 store) c of
                  None \<Rightarrow> None
                | Some (code, s, k) \<Rightarrow>
                    (case save_new w now (interf k s)
                            (new_Url (b_originalUrl b) code
                               (or_else (BASE_URL w) ''http://localhost:5052'' @ ''/'' @ code)
                               (Some c) (b_expiresAt b)) of
                       None \<Rightarrow> None
                     | Some (Inl e) \<Rightarrow> Some (Next e, interf k s)
                     | Some (Inr (i, d, s')) \<Rightarrow> Some (Created i d, s')))
         | None \<Rightarrow>
             (case ensure_unique (generateShortCode w) interf 0 1 store (generateShortCode w 0) of
                None \<Rightarrow> None
              | Some (code, s, k) \<Rightarrow>
                  (case save_new w now (interf k s)
                          (new_Url (b_originalUrl b) code
                             (or_else (BASE_URL w) ''http://localhost:5052'' @ ''/'' @ code)
                             None (b_expiresAt b)) of
                     None \<Rightarrow> None
                   | Some (Inl e) \<Rightarrow> Some (Next e, interf k s)
                   | Some (Inr (i, d, s')) \<Rightarrow> Some (Created i d, s')))))"

text \<open>\<^verbatim>\<open>UrlController.deleteUrl\<close> on a document of the caller: the soft delete.\<close>

definition deleteUrl :: "nat \<Rightarrow> url list \<Rightarrow> response \<times> url list" where
  "deleteUrl i store =
     (if i < length store
      then (Json 200 ''URL deleted successfully'' [],
            findByIdAndUpdate i (\<lambda>d. d\<lparr> isActive := False \<rparr>) store)
      else (Json 404 ''URL not found'' ''URL_NOT_FOUND'', store))"

section \<open>The timeframe of the analytics queries\<close>

text \<open>
  Each handler of \<^verbatim>\<open>analyticsControllers.js\<close> turns the query parameter into the
  start of the range it reads, moving a \<^verbatim>\<open>Date\<close> back by hours (\<^verbatim>\<open>setHours\<close>) or
  by days (\<^verbatim>\<open>setDate\<close>). \<^verbatim>\<open>UrlController.getUrlAnalytics\<close> is left out: after its
  own switch it filters \<^verbatim>\<open>url.clickHistory\<close>, which no stored document has, and
  throws before it answers.
\<close>

datatype start_date =
    Hours_back nat
  | Days_back nat

text \<open>\<^verbatim>\<open>const { timeframe = d } = req.query\<close>: the default replaces an absent parameter.\<close>

definition with_default :: "string \<Rightarrow> string option \<Rightarrow> string" where
  "with_default d tf = (case tf of None \<Rightarrow> d | Some t \<Rightarrow> t)"

definition getUrlAnalytics_startDate :: "string option \<Rightarrow> start_date" where
  "getUrlAnalytics_startDate tf =
     (let timeframe = with_default ''7d'' tf in
      if timeframe = ''24h'' then Hours_back 24
      else if timeframe = ''7d'' then Days_back 7
      else if timeframe = ''30d'' then Days_back 30
      else if timeframe = ''90d'' then Days_back 90
      else Days_back 7)"

definition getUserAnalytics_startDate :: "string option \<Rightarrow> start_date" where
  "getUserAnalytics_startDate tf =
     (let timeframe = with_default ''30d'' tf in
      if timeframe = ''7d'' then Days_back 7
      else if timeframe = ''30d'' then Days_back 30
      else if timeframe = ''90d'' then Days_back 90
      else Days_back 30)"

definition getSystemAnalytics_startDate :: "string option \<Rightarrow> start_date" where
  "getSystemAnalytics_startDate tf =
     (let timeframe = with_default ''30d'' tf in
      if timeframe = ''7d'' then Days_back 7
      else if timeframe = ''30d'' then Days_back 30
      else if timeframe = ''90d'' then Days_back 90
      else Days_back 30)"

text \<open>
  The middleware \<^verbatim>\<open>validateAnalyticsQuery\<close>: an absent parameter passes, a present
  one must be in the list, or the request ends in \<^verbatim>\<open>AppError('Invalid timeframe', 400)\<close>.
\<close>

definition validateAnalyticsQuery :: "string option \<Rightarrow> error option" where
  "validateAnalyticsQuery tf =
     (case tf of
        None \<Rightarrow> None
      | Some t \<Rightarrow>
          if t \<in> set [''24h'', ''7d'', ''30d'', ''all''] then None
          else Some (AppError ''Invalid timeframe'' 400))"


section \<open>Concrete inputs\<close>

text \<open>
  A world whose two URL checks accept what starts with \<^verbatim>\<open>http://\<close> or
  \<^verbatim>\<open>https://\<close>, with a given generator; a provider that knows no address; a stored
  link and a visit.
\<close>

definition http_url :: "string \<Rightarrow> bool" where
  "http_url u = (take 7 u = ''http://'' \<or> take 8 u = ''https://'')"

definition world_with :: "(nat \<Rightarrow> string) \<Rightarrow> world" where
  "world_with gen =
     \<lparr> validateUrl = http_url, generateShortCode = gen, nanoid = gen, isURL = http_url,
       BASE_URL = None \<rparr>"

definition geo_none :: geoip_module where
  "geo_none a = Inr None"

definition link :: "string \<Rightarrow> string \<Rightarrow> url" where
  "link code dest = new_Url dest code (''http://localhost:5052/'' @ code) None None"

definition visit :: "string \<Rightarrow> string \<Rightarrow> request" where
  "visit code a =
     \<lparr> req_shortCode = code, req_ip = a, req_userAgent = None, req_referer = None \<rparr>"

definition create_body :: "string \<Rightarrow> string option \<Rightarrow> body" where
  "create_body dest custom =
     \<lparr> b_originalUrl = dest, b_customCode = custom, b_expiresAt = None \<rparr>"

text \<open>Eleven codes that are all taken, and a generator that draws them before a free one.\<close>

definition taken_codes :: "string list" where
  "taken_codes =
     [''code0000'', ''code0001'', ''code0002'', ''code0003'', ''code0004'', ''code0005'',
      ''code0006'', ''code0007'', ''code0008'', ''code0009'', ''code0010'']"

definition crowded :: "url list" where
  "crowded = map (\<lambda>c. link c ''https://example.com'') taken_codes"

definition unlucky :: "nat \<Rightarrow> string" where
  "unlucky k = (if k < 11 then taken_codes ! k else ''fresh123'')"

definition always :: "string \<Rightarrow> nat \<Rightarrow> string" where
  "always c k = c"

text \<open>
  Another request that takes the alias \<^verbatim>\<open>my-link\<close> between this handler's first
  and second database call.
\<close>

definition rival :: interference where
  "rival k store =
     (if k = 1
      then store @ [new_Url ''https://other.example'' ''my-link''
                      ''http://localhost:3000/my-link'' (Some ''my-link'') None]
      else store)"


section \<open>Facts about the lookup\<close>


lemma findOne_None: "findOne p s = None \<longleftrightarrow> (\<forall>u\<in>set s. \<not> p u)"
  by (induction s) (auto split: option.splits)



lemma validate_Nil:
  "validate w now d = [] \<Longrightarrow> shortCode d \<noteq> [] \<and> check_expiresAt now d = []"
  by (auto simp: validate_def check_shortCode_def split: if_splits)

lemma check_expiresAt_Nil:
  "check_expiresAt now d = [] \<longleftrightarrow> (case expiresAt d of None \<Rightarrow> True | Some t \<Rightarrow> now < t)"
  by (simp add: check_expiresAt_def split: option.splits)

lemma presave_keeps:
  "shortCode d \<noteq> [] \<Longrightarrow> presave w store d = Some d' \<Longrightarrow>
     shortCode d' = shortCode d \<and> originalUrl d' = originalUrl d \<and> expiresAt d' = expiresAt d \<and>
     isActive d' = isActive d \<and> clicks d' = clicks d \<and>
     uniqueClicks d' = uniqueClicks d"
  by (auto simp: presave_def with_shortUrl_def)

lemma save_new_Inr:
  assumes "save_new w now s nd = Some (Inr (i, d, s'))"
  shows "i = length s \<and> s' = s @ [d] \<and> findOne (\<lambda>u. shortCode u = shortCode d) s = None \<and>
     validate w now nd = [] \<and> shortCode d = shortCode nd \<and> originalUrl d = originalUrl nd \<and>
     expiresAt d = expiresAt nd \<and> isActive d = isActive nd"
proof -
  from assms have v: "validate w now nd = []"
    by (auto simp: save_new_def split: list.splits)
  then have ne: "shortCode nd \<noteq> []" using validate_Nil by blast
  from assms v obtain d' where p: "presave w s nd = Some d'"
    by (auto simp: save_new_def split: option.splits)
  from assms v p have r: "findOne (\<lambda>u. shortCode u = shortCode d') s = None \<and>
    i = length s \<and> d = d' \<and> s' = s @ [d']"
    by (cases "findOne (\<lambda>u. shortCode u = shortCode d') s") (auto simp: save_new_def)
  from presave_keeps [OF ne p] r v show ?thesis by auto
qed

lemma save_new_expired:
  assumes "expiresAt d = Some t" "t \<le> now"
  shows "\<exists>ms. save_new w now store d = Some (Inl (ValidationError ms)) \<and> ''Expiration date must be in the future'' \<in> set ms"
proof -
  from assms have "''Expiration date must be in the future'' \<in> set (validate w now d)"
    by (simp add: validate_def check_expiresAt_def)
  then show ?thesis
    by (cases "validate w now d") (auto simp: save_new_def)
qed

lemma save_expired:
  assumes "expiresAt d = Some t" "t \<le> now"
  shows "\<exists>ms. save w now store i d = Some (Inl (ValidationError ms)) \<and> ''Expiration date must be in the future'' \<in> set ms"
proof -
  from assms have "''Expiration date must be in the future'' \<in> set (validate w now d)"
    by (simp add: validate_def check_expiresAt_def)
  then show ?thesis
    by (cases "validate w now d") (auto simp: save_def)
qed

lemma presave_with_code:
  "shortCode d \<noteq> [] \<Longrightarrow> \<exists>d'. presave w store d = Some d'"
  by (simp add: presave_def)

lemma save_new_returns: "\<exists>r. save_new w now store d = Some r"
proof (cases "validate w now d")
  case Nil
  with validate_Nil [OF Nil] presave_with_code [of d w store] show ?thesis
    by (auto simp: save_new_def)
next
  case (Cons m ms)
  then show ?thesis by (simp add: save_new_def)
qed

lemma save_returns: "\<exists>r. save w now store i d = Some r"
proof (cases "validate w now d")
  case Nil
  with validate_Nil [OF Nil] presave_with_code [of d w store] show ?thesis
    by (auto simp: save_def)
next
  case (Cons m ms)
  then show ?thesis by (simp add: save_def)
qed


lemma new_Url_sel:
  "originalUrl (new_Url a c s cu e) = trim a" "shortCode (new_Url a c s cu e) = trim c"
  "expiresAt (new_Url a c s cu e) = e" "isActive (new_Url a c s cu e) = True"
  by (simp_all add: new_Url_def)

lemma ensure_unique_free:
  "findOne (shortCode_filter c) store = None \<Longrightarrow>
     ensure_unique gen quiet k g store c = Some (c, store, Suc k)"
  by (subst ensure_unique.simps) (simp add: quiet_def)

lemma ensure_unique_taken:
  "findOne (shortCode_filter c) store \<noteq> None \<Longrightarrow>
     ensure_unique gen quiet k g store c = ensure_unique gen quiet (Suc k) (Suc g) store (gen g)"
  by (subst ensure_unique.simps) (simp add: quiet_def)

lemma ensure_unique_steps:
  "(\<forall>j<n. findOne (shortCode_filter (gen (g + j))) store \<noteq> None) \<Longrightarrow>
   findOne (shortCode_filter (gen (g + n))) store = None \<Longrightarrow>
   ensure_unique gen quiet k (Suc g) store (gen g) = Some (gen (g + n), store, Suc (k + n))"
proof (induction n arbitrary: k g)
  case 0
  then show ?case by (simp add: ensure_unique_free)
next
  case (Suc n)
  from Suc.prems(1) have t0: "findOne (shortCode_filter (gen g)) store \<noteq> None"
    by (metis add.right_neutral zero_less_Suc)
  have rest: "\<forall>j<n. findOne (shortCode_filter (gen (Suc g + j))) store \<noteq> None"
    using Suc.prems(1) by (metis Suc_less_eq add_Suc_shift)
  have last: "findOne (shortCode_filter (gen (Suc g + n))) store = None"
    using Suc.prems(2) by simp
  from Suc.IH [OF rest last, of "Suc k"] t0 show ?case
    by (simp add: ensure_unique_taken)
qed

lemma ensure_unique_Some_free:
  assumes "ensure_unique gen interf k g store c = Some r"
  shows "interf = quiet \<longrightarrow>
     findOne (shortCode_filter c) store = None \<or>
     (\<exists>j. findOne (shortCode_filter (gen (g + j))) store = None)"
proof (rule ensure_unique.raw_induct
    [where P = "\<lambda>gen interf k g store c r. interf = quiet \<longrightarrow>
       findOne (shortCode_filter c) store = None \<or>
       (\<exists>j. findOne (shortCode_filter (gen (g + j))) store = None)", OF _ assms],
    goal_cases)
  case (1 eu gen interf k g store code r)
  show ?case
  proof
    assume q: "interf = quiet"
    show "findOne (shortCode_filter code) store = None \<or>
      (\<exists>j. findOne (shortCode_filter (gen (g + j))) store = None)"
    proof (cases "findOne (shortCode_filter code) store = None")
      case True
      then show ?thesis by simp
    next
      case False
      with 1(2) q have step: "eu gen interf (Suc k) (Suc g) store (gen g) = Some r"
        by (simp add: quiet_def)
      have "interf = quiet \<longrightarrow> findOne (shortCode_filter (gen g)) store = None \<or>
            (\<exists>j. findOne (shortCode_filter (gen (Suc g + j))) store = None)"
        by (rule 1(1) [OF step])
      with q have "findOne (shortCode_filter (gen g)) store = None \<or>
            (\<exists>j. findOne (shortCode_filter (gen (Suc g + j))) store = None)" by blast
      then show ?thesis
      proof
        assume "findOne (shortCode_filter (gen g)) store = None"
        then have "findOne (shortCode_filter (gen (g + 0))) store = None" by simp
        then show ?thesis by blast
      next
        assume "\<exists>j. findOne (shortCode_filter (gen (Suc g + j))) store = None"
        then obtain j where "findOne (shortCode_filter (gen (g + Suc j))) store = None" by auto
        then show ?thesis by blast
      qed
    qed
  qed
qed

lemma ensure_unique_never:
  assumes "findOne (shortCode_filter c) store \<noteq> None"
    and "\<forall>j. findOne (shortCode_filter (gen (g + j))) store \<noteq> None"
  shows "ensure_unique gen quiet k g store c = None"
proof (cases "ensure_unique gen quiet k g store c")
  case None
  then show ?thesis .
next
  case (Some r)
  from ensure_unique_Some_free [OF Some] assms show ?thesis by blast
qed

lemma presave_generate_Some_free:
  assumes "presave_generate nano store k = Some c"
  shows "\<exists>j. findOne (shortCode_filter (nano (k + j))) store = None"
proof (rule presave_generate.raw_induct
    [where P = "\<lambda>nano store k c.
       \<exists>j. findOne (shortCode_filter (nano (k + j))) store = None", OF _ assms],
    goal_cases)
  case (1 pg nano store k c)
  show ?case
  proof (cases "findOne (shortCode_filter (nano k)) store = None")
    case True
    then have "findOne (shortCode_filter (nano (k + 0))) store = None" by simp
    then show ?thesis by blast
  next
    case False
    with 1(2) have step: "pg nano store (Suc k) = Some c" by simp
    have "\<exists>j. findOne (shortCode_filter (nano (Suc k + j))) store = None"
      by (rule 1(1) [OF step])
    then obtain j where "findOne (shortCode_filter (nano (k + Suc j))) store = None" by auto
    then show ?thesis by blast
  qed
qed

lemma presave_generate_never:
  assumes "\<forall>j. findOne (shortCode_filter (nano (k + j))) store \<noteq> None"
  shows "presave_generate nano store k = None"
proof (cases "presave_generate nano store k")
  case None
  then show ?thesis .
next
  case (Some c)
  from presave_generate_Some_free [OF Some] assms show ?thesis by blast
qed

lemma deactivated_link_is_not_found:
  assumes "i < length store"
    and "\<forall>j<length store. shortCode (store ! j) = req_shortCode req \<longrightarrow> j = i"
  shows "redirectUrl geoip db_error now (snd (deleteUrl i store)) req =
     (Json 404 ''Short URL not found or expired'' ''URL_NOT_FOUND'', snd (deleteUrl i store))"
proof -
  let ?s = "store[i := (store ! i)\<lparr> isActive := False \<rparr>]"
  have s: "snd (deleteUrl i store) = ?s"
    using assms(1) by (simp add: deleteUrl_def findByIdAndUpdate_def)
  have "\<not> redirect_filter (req_shortCode req) now u" if "u \<in> set ?s" for u
  proof -
    from that obtain j where j: "j < length store" and u: "u = ?s ! j"
      by (auto simp: in_set_conv_nth)
    show ?thesis
    proof (cases "j = i")
      case True
      with j u show ?thesis by (simp add: redirect_filter_def)
    next
      case False
      with j u assms(2) show ?thesis by (auto simp: redirect_filter_def)
    qed
  qed
  then have "findOne (redirect_filter (req_shortCode req) now) ?s = None"
    by (simp add: findOne_None)
  then show ?thesis by (simp add: redirectUrl_def s)
qed

lemmas scene = link_def new_Url_def visit_def trim_def is_space_def geo_none_def
  shortCode_filter_def

lemmas checks = validate_def check_originalUrl_def check_shortCode_def check_shortUrl_def
  check_clicks_def check_expiresAt_def match_shortCode_def code_char_def

lemmas creation = shortenUrl_def save_new_def presave_def with_shortUrl_def truthy_def
  or_else_def
  world_with_def http_url_def create_body_def always_def

section \<open>What the redirect answers\<close>

text \<open>
  C1. The claim: resolving a stored link whose active flag is false answers INACTIVE,
  one that is active and past its expiry answers EXPIRED, and only a code with no record
  answers NOT_FOUND. The handler looks the code up with the active flag and the expiry
  inside the filter, so at a deactivated link, at an expired link and at an unknown code
  it gives the same answer: status 404 with the error \<^verbatim>\<open>URL_NOT_FOUND\<close>.
\<close>

theorem redirectUrl_inactive_answers_not_found:
  "redirectUrl (Some geo_none) None 1000
     [(link ''abc123'' ''https://example.com'')\<lparr> isActive := False \<rparr>]
     (visit ''abc123'' ''10.0.0.1'')
   = (Json 404 ''Short URL not found or expired'' ''URL_NOT_FOUND'',
      [(link ''abc123'' ''https://example.com'')\<lparr> isActive := False \<rparr>])
  \<and> fst (redirectUrl (Some geo_none) None 1000
       [(link ''abc123'' ''https://example.com'')\<lparr> expiresAt := Some 999 \<rparr>]
       (visit ''abc123'' ''10.0.0.1''))
   = Json 404 ''Short URL not found or expired'' ''URL_NOT_FOUND''
  \<and> fst (redirectUrl (Some geo_none) None 1000 [] (visit ''abc123'' ''10.0.0.1''))
   = Json 404 ''Short URL not found or expired'' ''URL_NOT_FOUND''"
  by (simp add: redirectUrl_def redirect_filter_def scene)

text \<open>
  C2, the claim fails: the link is stored, active and not expired, the provider answers,
  and the write of the click throws. The handler awaits the write before it redirects,
  so the error goes to \<^verbatim>\<open>next\<close> and no redirect is sent.
\<close>

theorem redirectUrl_write_failure_no_redirect:
  "redirectUrl (Some geo_none) (Some PersistenceError) 1000
     [link ''abc123'' ''https://example.com''] (visit ''abc123'' ''10.0.0.1'')
   = (Next PersistenceError, [link ''abc123'' ''https://example.com''])"
  by (simp add: redirectUrl_def redirect_filter_def scene)

text \<open>
  C2, as the code has it: once the lookup has found the link and the provider has
  answered, the redirect to the destination is sent exactly when the write of the click
  goes through; when it throws, the answer is \<^verbatim>\<open>next(error)\<close> with that error and
  the collection is unchanged.
\<close>

theorem redirectUrl_redirects_iff_write_succeeds:
  assumes "findOne (redirect_filter (req_shortCode req) now) store = Some (i, u)"
    and "lookup (req_ip req) = Inr g"
  shows "redirectUrl (Some lookup) db_error now store req =
     (case db_error of
        None \<Rightarrow> (Redirect 301 (originalUrl u),
                 findByIdAndUpdate i (record_click (clickData now req g)) store)
      | Some e \<Rightarrow> (Next e, store))"
  using assms by (simp add: redirectUrl_def split: option.splits)

text \<open>C2, the amended statement at a stored link, with a failing and with a working write.\<close>

theorem redirectUrl_redirects_iff_write_succeeds_witness:
  "redirectUrl (Some geo_none) (Some PersistenceError) 1000
     [link ''abc123'' ''https://example.com''] (visit ''abc123'' ''10.0.0.1'')
   = (Next PersistenceError, [link ''abc123'' ''https://example.com''])
   \<and> fst (redirectUrl (Some geo_none) None 1000
     [link ''abc123'' ''https://example.com''] (visit ''abc123'' ''10.0.0.1''))
   = Redirect 301 ''https://example.com''"
proof -
  let ?s = "[link ''abc123'' ''https://example.com'']"
  let ?r = "visit ''abc123'' ''10.0.0.1''"
  have f: "findOne (redirect_filter (req_shortCode ?r) 1000) ?s
             = Some (0, link ''abc123'' ''https://example.com'')"
    by (simp add: redirect_filter_def scene)
  have g: "geo_none (req_ip ?r) = Inr None"
    by (simp add: geo_none_def)
  from redirectUrl_redirects_iff_write_succeeds
      [where lookup = geo_none and db_error = "Some PersistenceError", OF f g]
    redirectUrl_redirects_iff_write_succeeds
      [where lookup = geo_none and db_error = None, OF f g]
  show ?thesis by (simp add: scene)
qed

text \<open>
  C3. The claim: with the geolocation provider unavailable the click is still recorded,
  with the country Unknown, and the redirect succeeds. When the import of geoip-lite
  failed the module variable is \<^verbatim>\<open>null\<close>, \<^verbatim>\<open>geoip.lookup(ip)\<close> throws a
  TypeError, and the handler ends in \<^verbatim>\<open>next(error)\<close>: no click is recorded and no
  redirect is sent.
\<close>

theorem redirectUrl_without_geoip_throws:
  "redirectUrl None None 1000 [link ''abc123'' ''https://example.com'']
     (visit ''abc123'' ''10.0.0.1'')
   = (Next TypeError, [link ''abc123'' ''https://example.com''])"
  by (simp add: redirectUrl_def redirect_filter_def scene)

section \<open>Allocating a short code\<close>

text \<open>
  C4, the claim fails: the loop has no cap of ten attempts and no
  \<^verbatim>\<open>GENERATION_EXHAUSTED\<close>. With eleven taken codes drawn first it looks twelve
  codes up and then succeeds; with a generator that only draws a taken code it never
  returns, and neither does the handler.
\<close>

theorem ensure_unique_twelve_attempts:
  "ensure_unique unlucky quiet 0 1 crowded (unlucky 0) = Some (''fresh123'', crowded, 12) \<and>
   ensure_unique (always ''code0000'') quiet 0 1 crowded (always ''code0000'' 0) = None \<and>
   shortenUrl (world_with (always ''code0000'')) quiet 1000 crowded
     (create_body ''https://example.com'' None) = None"
proof (intro conjI)
  show "ensure_unique unlucky quiet 0 1 crowded (unlucky 0) = Some (''fresh123'', crowded, 12)"
    by (simp add: ensure_unique.simps quiet_def unlucky_def crowded_def taken_codes_def scene)
  have t: "findOne (shortCode_filter ''code0000'') crowded \<noteq> None"
    by (simp add: crowded_def taken_codes_def scene)
  then show n: "ensure_unique (always ''code0000'') quiet 0 1 crowded (always ''code0000'' 0)
      = None"
    by (intro ensure_unique_never) (simp_all add: always_def)
  then show "shortenUrl (world_with (always ''code0000'')) quiet 1000 crowded
     (create_body ''https://example.com'' None) = None"
    by (simp add: shortenUrl_def truthy_def world_with_def http_url_def create_body_def)
qed

text \<open>
  C4, as the code has it: run alone, the loop looks up the first code and then one
  generated code after the other, and returns the first that no document has, after as
  many lookups as codes it tried (\<open>Suc n\<close> when \<open>n\<close> were taken); when every code the
  generator draws is taken, it does not return.
\<close>

theorem ensure_unique_unbounded:
  "((\<forall>j<n. findOne (shortCode_filter (gen j)) store \<noteq> None) \<and>
    findOne (shortCode_filter (gen n)) store = None \<longrightarrow>
    ensure_unique gen quiet 0 1 store (gen 0) = Some (gen n, store, Suc n)) \<and>
   ((\<forall>j. findOne (shortCode_filter (gen j)) store \<noteq> None) \<longrightarrow>
    ensure_unique gen quiet 0 1 store (gen 0) = None)"
proof (intro conjI impI)
  assume "(\<forall>j<n. findOne (shortCode_filter (gen j)) store \<noteq> None) \<and>
    findOne (shortCode_filter (gen n)) store = None"
  then show "ensure_unique gen quiet 0 1 store (gen 0) = Some (gen n, store, Suc n)"
    using ensure_unique_steps [of n gen 0 store 0] by simp
next
  assume a: "\<forall>j. findOne (shortCode_filter (gen j)) store \<noteq> None"
  then have "\<forall>j. findOne (shortCode_filter (gen (1 + j))) store \<noteq> None" by blast
  with a show "ensure_unique gen quiet 0 1 store (gen 0) = None"
    by (intro ensure_unique_never) auto
qed

text \<open>
  C4, the amended statement at the crowded collection: twelve lookups with the unlucky
  generator, no return with the constant one.
\<close>

theorem ensure_unique_unbounded_witness:
  "ensure_unique unlucky quiet 0 1 crowded (unlucky 0) = Some (unlucky 11, crowded, 12)
   \<and> ensure_unique (always ''code0000'') quiet 0 1 crowded (always ''code0000'' 0) = None"
proof -
  have t: "\<forall>j<11. findOne (shortCode_filter (unlucky j)) crowded \<noteq> None"
  proof (intro allI impI)
    fix j :: nat
    assume "j < 11"
    then have "j = 0 \<or> j = 1 \<or> j = 2 \<or> j = 3 \<or> j = 4 \<or> j = 5 \<or> j = 6 \<or> j = 7 \<or>
      j = 8 \<or> j = 9 \<or> j = 10" by arith
    then show "findOne (shortCode_filter (unlucky j)) crowded \<noteq> None"
      by (auto simp: unlucky_def crowded_def taken_codes_def scene)
  qed
  have f: "findOne (shortCode_filter (unlucky 11)) crowded = None"
    by (simp add: unlucky_def crowded_def taken_codes_def scene)
  have a: "\<forall>j. findOne (shortCode_filter (always ''code0000'' j)) crowded \<noteq> None"
    by (simp add: always_def crowded_def taken_codes_def scene)
  from ensure_unique_unbounded [of 11 unlucky crowded] t f
    ensure_unique_unbounded [of 0 "always ''code0000''" crowded] a
  show ?thesis by simp
qed

text \<open>
  C5. The claim: a custom alias is never silently replaced by another code, neither at
  the first existence check nor after a collision found later. At an alias that is
  taken when the handler first looks, the handler answers 409 \<^verbatim>\<open>CODE_TAKEN\<close>; but
  the loop that follows runs for a custom alias too. Here \<^verbatim>\<open>my-link\<close> is free at the
  first lookup, another request takes it before the loop's lookup, and the loop replaces
  it with a generated code: the link is created under \<^verbatim>\<open>Xy12ab9Q\<close>.
\<close>

theorem shortenUrl_substitutes_after_late_collision:
  "shortenUrl (world_with (always ''Xy12ab9Q'')) rival 1000 []
     (create_body ''https://example.com'' (Some ''my-link''))
   = Some (Created 1
       (new_Url ''https://example.com'' ''Xy12ab9Q'' ''http://localhost:3000/Xy12ab9Q''
          (Some ''my-link'') None),
       [new_Url ''https://other.example'' ''my-link'' ''http://localhost:3000/my-link''
          (Some ''my-link'') None,
        new_Url ''https://example.com'' ''Xy12ab9Q'' ''http://localhost:3000/Xy12ab9Q''
          (Some ''my-link'') None])"
  by (simp add: creation checks ensure_unique.simps rival_def scene)

text \<open>
  What the handler does get right: an alias that a stored link has (after the trim of
  the cast) at the first lookup is refused with 409 and nothing is added; and run
  alone, a link it creates carries the alias, as the schema stores it.
\<close>

lemma custom_code_taken_is_refused:
  assumes "truthy (b_customCode b) = Some c" and "validateUrl w (b_originalUrl b)"
    and "findOne (shortCode_filter c) (interf 0 store) \<noteq> None"
  shows "shortenUrl w interf now store b =
           Some (Json 409 ''Custom code already taken'' ''CODE_TAKEN'', interf 0 store)"
  using assms by (simp add: shortenUrl_def)

lemma custom_code_kept_when_alone:
  assumes "truthy (b_customCode b) = Some c"
    and cr: "shortenUrl w quiet now store b = Some (Created i d, s')"
  shows "shortCode d = trim c \<and> s' = store @ [d]"
proof -
  from assms have v: "validateUrl w (b_originalUrl b)"
    by (auto simp: shortenUrl_def split: if_splits)
  have free: "findOne (shortCode_filter c) store = None"
  proof (rule ccontr)
    assume "findOne (shortCode_filter c) store \<noteq> None"
    with assms v show False by (simp add: shortenUrl_def quiet_def)
  qed
  then have eu: "ensure_unique (generateShortCode w) quiet 1 0 store c = Some (c, store, 2)"
    by (simp add: ensure_unique_free)
  from cr assms(1) v free eu
  have "save_new w now store
          (new_Url (b_originalUrl b) c (or_else (BASE_URL w) ''http://localhost:5052'' @ ''/'' @ c)
             (Some c) (b_expiresAt b)) = Some (Inr (i, d, s'))"
    by (simp add: shortenUrl_def quiet_def split: option.splits sum.splits prod.splits)
  from save_new_Inr [OF this]
  show ?thesis by (simp add: new_Url_sel)
qed

section \<open>Creating, then resolving\<close>



section \<open>Counting clicks\<close>




section \<open>The timeframe\<close>


text \<open>
  What the handlers and the middleware do at every timeframe: the middleware passes an
  absent one and the four values 24h, 7d, 30d, all, and rejects every other with
  \<^verbatim>\<open>AppError('Invalid timeframe', 400)\<close>; the per-link handler reads 24h, 7d, 30d and
  90d and takes everything else as 7 days; the per-owner and the system handler read 7d,
  30d and 90d and take everything else as 30 days.
\<close>

lemma validateAnalyticsQuery_cases:
  "validateAnalyticsQuery tf =
     (if tf \<in> {None, Some ''24h'', Some ''7d'', Some ''30d'', Some ''all''} then None
      else Some (AppError ''Invalid timeframe'' 400))"
  by (cases tf) (auto simp: validateAnalyticsQuery_def)

lemma getUrlAnalytics_startDate_cases:
  "getUrlAnalytics_startDate tf =
     (if tf = Some ''24h'' then Hours_back 24
      else if tf = Some ''30d'' then Days_back 30
      else if tf = Some ''90d'' then Days_back 90
      else Days_back 7)"
  by (cases tf) (auto simp: getUrlAnalytics_startDate_def with_default_def)

lemma getUserAnalytics_startDate_cases:
  "getUserAnalytics_startDate tf =
     (if tf = Some ''7d'' then Days_back 7
      else if tf = Some ''90d'' then Days_back 90
      else Days_back 30)"
  by (cases tf) (auto simp: getUserAnalytics_startDate_def with_default_def)

lemma getSystemAnalytics_startDate_cases:
  "getSystemAnalytics_startDate tf = getUserAnalytics_startDate tf"
  by (simp add: getSystemAnalytics_startDate_def getUserAnalytics_startDate_def)

section \<open>The status of the redirect\<close>

text \<open>
  C9. Every redirect the handler sends has status 301, and its location is the
  destination of the first stored link with that code that is active and not expired.
\<close>

theorem redirectUrl_status_301:
  assumes "fst (redirectUrl geoip db_error now store req) = Redirect st loc"
  shows "st = 301 \<and>
     (\<exists>i u. findOne (redirect_filter (req_shortCode req) now) store = Some (i, u) \<and>
            loc = originalUrl u)"
  using assms by (auto simp: redirectUrl_def split: option.splits sum.splits)

text \<open>C9 at a stored link: the handler redirects, and the status is 301.\<close>

theorem redirectUrl_status_301_witness:
  "fst (redirectUrl (Some geo_none) None 1000 [link ''abc123'' ''https://example.com'']
          (visit ''abc123'' ''10.0.0.1'')) = Redirect 301 ''https://example.com''
   \<and> (301::nat) = 301"
proof -
  have h: "fst (redirectUrl (Some geo_none) None 1000 [link ''abc123'' ''https://example.com'']
          (visit ''abc123'' ''10.0.0.1'')) = Redirect 301 ''https://example.com''"
    by (simp add: redirectUrl_def redirect_filter_def findByIdAndUpdate_def scene)
  from redirectUrl_status_301 [OF h] h show ?thesis by simp
qed

section \<open>Saving\<close>

text \<open>
  C10. A document whose expiry is set and not after the time of the save is rejected by
  validation: as a new document (so no link is created already expired), as a loaded
  document, and through \<^verbatim>\<open>incrementClicks\<close>, which saves.
\<close>

theorem save_rejects_past_expiry:
  assumes "expiresAt d = Some t" and "t \<le> now"
  shows "(\<exists>ms. save_new w now store d = Some (Inl (ValidationError ms)) \<and>
               ''Expiration date must be in the future'' \<in> set ms) \<and>
         (\<exists>ms. save w now store i d = Some (Inl (ValidationError ms)) \<and>
               ''Expiration date must be in the future'' \<in> set ms) \<and>
         (\<exists>ms. incrementClicks w now store i d = Some (Inl (ValidationError ms)) \<and>
               ''Expiration date must be in the future'' \<in> set ms)"
proof -
  have "expiresAt (d\<lparr> clicks := clicks d + 1,
           analytics_totalClicks := analytics_totalClicks d + 1,
           lastAccessedAt := Some now \<rparr>) = Some t"
    using assms by simp
  from save_expired [OF this assms(2)] save_new_expired [OF assms] save_expired [OF assms]
  show ?thesis unfolding incrementClicks_def by blast
qed

text \<open>C10 at a stored link that expired one millisecond ago: counting a click fails.\<close>

theorem save_rejects_past_expiry_witness:
  "incrementClicks (world_with unlucky) 1000
      [(link ''abc123'' ''https://example.com'')\<lparr> expiresAt := Some 999 \<rparr>] 0
      ((link ''abc123'' ''https://example.com'')\<lparr> expiresAt := Some 999 \<rparr>)
    = Some (Inl (ValidationError [''Expiration date must be in the future'']))"
proof -
  let ?d = "(link ''abc123'' ''https://example.com'')\<lparr> expiresAt := Some 999 \<rparr>"
  have e: "expiresAt ?d = Some 999" by simp
  have l: "(999::int) \<le> 1000" by simp
  from save_rejects_past_expiry [OF e l, of "world_with unlucky" "[?d]" 0]
  show ?thesis
    by (simp add: incrementClicks_def save_def validate_def check_originalUrl_def
        check_shortCode_def check_shortUrl_def check_clicks_def check_expiresAt_def
        match_shortCode_def code_char_def world_with_def http_url_def scene)
qed

end
